theory Spec2Isabelle
  imports Main
begin

section \<open>Values and the shared workflow state\<close>

text \<open>
  The workflow of \<^verbatim>\<open>src/agent/graph.py\<close> threads one Python dictionary through its
  nodes. Its keys are the seventeen keys of \<^verbatim>\<open>OverallState\<close>; a key may be absent
  (the nodes read with \<^verbatim>\<open>state.get(key, default)\<close>), so the state is a partial map.
  The values are Python scalars: the packs and queries are strings, the acceptance flags are
  whatever value the reviewer resumes the gate with. The routing functions only look at the
  truth value of a flag (\<^verbatim>\<open>not state.get(...)\<close>), and the f-strings only at its
  \<^verbatim>\<open>str()\<close>.
\<close>

datatype pyval = PyNone | PyBool bool | PyInt int | PyStr string

fun truthy :: "pyval \<Rightarrow> bool" where
  "truthy PyNone = False"
| "truthy (PyBool b) = b"
| "truthy (PyInt i) = (i \<noteq> 0)"
| "truthy (PyStr s) = (s \<noteq> [])"

fun digits :: "nat \<Rightarrow> string" where
  "digits n =
     (if n < 10 then [char_of (48 + n)]
      else digits (n div 10) @ [char_of (48 + n mod 10)])"

fun py_str :: "pyval \<Rightarrow> string" where
  "py_str PyNone = ''None''"
| "py_str (PyBool b) = (if b then ''True'' else ''False'')"
| "py_str (PyInt i) = (if i < 0 then ''-'' @ digits (nat (- i)) else digits (nat i))"
| "py_str (PyStr s) = s"

datatype key =
    borrower_id | sector
  | policy_query | entity_query | market_query
  | policy_pack | entity_pack | market_pack
  | credit_memo | approved_memo
  | rerun_policy | rerun_entity | rerun_market
  | accept_policy | accept_entity | accept_market
  | accept_synthesis

definition OverallState :: "key list" where
  "OverallState =
     [borrower_id, sector, policy_query, entity_query, market_query,
      policy_pack, entity_pack, market_pack, credit_memo, approved_memo,
      rerun_policy, rerun_entity, rerun_market,
      accept_policy, accept_entity, accept_market, accept_synthesis]"

type_synonym state = "key \<rightharpoonup> pyval"

text \<open>\<^verbatim>\<open>state.get(key, default)\<close>.\<close>

definition get :: "state \<Rightarrow> key \<Rightarrow> pyval \<Rightarrow> pyval" where
  "get state k d = (case state k of None \<Rightarrow> d | Some v \<Rightarrow> v)"

section \<open>The collaborators\<close>

text \<open>
  A call of \<^verbatim>\<open>query_h2ogpte_rag\<close> or \<^verbatim>\<open>query_h2ogpte_llm\<close> either returns the
  reply's content or raises an \<^verbatim>\<open>Exception\<close> \<open>e\<close>; \<open>Raised m\<close> is that second
  case, with \<open>m\<close> the text of \<^verbatim>\<open>str(e)\<close>. The environment read by
  \<^verbatim>\<open>os.getenv\<close> is a partial map from variable names to strings. Every node returns the
  collaborator calls it made together with its result, so that what was called is part of
  what a theorem can speak about.
\<close>

datatype reply = Content string | Raised string

datatype call = RagCall pyval string | LlmCall string

text \<open>
  The nodes of the graph, under the names \<^verbatim>\<open>add_node\<close> gives them; \<open>END\<close> is the
  target \<^verbatim>\<open>"__end__"\<close>.
\<close>

datatype node =
    Ingest
  | RAG_Policy | RAG_Entity | RAG_Market
  | HITL_Policy | HITL_Entity | HITL_Market
  | Synthesize | HITL_Final
  | END

text \<open>
  The exceptions that leave a node or the graph: \<^verbatim>\<open>ValueError\<close> with its message,
  \<^verbatim>\<open>KeyError\<close> with the missing key, the graph library's error for a key written twice
  in one step, and the \<^verbatim>\<open>TypeError\<close> of the library's synchronous interface for a node
  that is a coroutine function.
\<close>

datatype error =
    ValueError string | KeyError string | InvalidUpdateError key | TypeError node

type_synonym 'a io = "call list \<times> (error + 'a)"

section \<open>Ingest\<close>

definition ingest_renewal_alert :: "state \<Rightarrow> state" where
  "ingest_renewal_alert state =
     (let borrower = get state borrower_id (PyStr ''TechManufacture Inc'');
          sect = get state sector (PyStr ''Advanced Manufacturing'')
      in state
          (policy_query \<mapsto> PyStr (''Credit policy and underwriting guidelines for ''
               @ py_str borrower @ '' in '' @ py_str sect @ '' sector''),
           entity_query \<mapsto> PyStr (''Financial data, credit history, and risk profile for ''
               @ py_str borrower),
           market_query \<mapsto> PyStr (''Market conditions, sector analysis, and economic indicators for ''
               @ py_str sect @ '' sector'')))"

section \<open>The three retrieval nodes\<close>

text \<open>
  \<^verbatim>\<open>rag_policy\<close>, \<^verbatim>\<open>rag_entity\<close> and \<^verbatim>\<open>rag_market\<close> are written twice in the
  repository, in \<^verbatim>\<open>graph.py\<close> and in \<^verbatim>\<open>h2ogpte_nodes.py\<close>, with the same body; one
  definition stands for both. The check of the collection identifier
  (\<^verbatim>\<open>if not policy_collection_id\<close>) rejects an unset variable and an empty one, and it
  stands before the \<^verbatim>\<open>try\<close>. The subscript \<^verbatim>\<open>state['policy_query']\<close> stands inside
  the \<^verbatim>\<open>try\<close>: on an absent key its \<^verbatim>\<open>KeyError\<close> is caught like a failure of the
  call, and \<^verbatim>\<open>str\<close> of it is the key in single quotes.
\<close>

definition unset_message :: "string \<Rightarrow> string" where
  "unset_message var =
     var @ '' environment variable not set. ''
       @ ''Please check the README for setup instructions and ensure your .env file is configured correctly.''"

definition quoted :: "string \<Rightarrow> string" where
  "quoted k = [CHR 0x27] @ k @ [CHR 0x27]"

definition rag_policy ::
  "(string \<rightharpoonup> string) \<Rightarrow> (pyval \<Rightarrow> string \<Rightarrow> reply) \<Rightarrow> state \<Rightarrow> state io" where
  "rag_policy getenv query_h2ogpte_rag state =
     (case getenv ''POLICY_COLLECTION_ID'' of
        None \<Rightarrow> ([], Inl (ValueError (unset_message ''POLICY_COLLECTION_ID'')))
      | Some policy_collection_id \<Rightarrow>
          if policy_collection_id = [] then
            ([], Inl (ValueError (unset_message ''POLICY_COLLECTION_ID'')))
          else
            (case state policy_query of
               None \<Rightarrow>
                 ([], Inr [policy_pack \<mapsto> PyStr (''Policy retrieval failed: '' @ quoted ''policy_query''),
                           accept_policy \<mapsto> PyBool False])
             | Some q \<Rightarrow>
                 ([RagCall q policy_collection_id],
                  Inr (case query_h2ogpte_rag q policy_collection_id of
                         Content policy_content \<Rightarrow>
                           [policy_pack \<mapsto> PyStr (''Policy Analysis:\<newline>'' @ policy_content),
                            accept_policy \<mapsto> PyBool False]
                       | Raised e \<Rightarrow>
                           [policy_pack \<mapsto> PyStr (''Policy retrieval failed: '' @ e),
                            accept_policy \<mapsto> PyBool False]))))"

definition rag_entity ::
  "(string \<rightharpoonup> string) \<Rightarrow> (pyval \<Rightarrow> string \<Rightarrow> reply) \<Rightarrow> state \<Rightarrow> state io" where
  "rag_entity getenv query_h2ogpte_rag state =
     (case getenv ''ENTITY_COLLECTION_ID'' of
        None \<Rightarrow> ([], Inl (ValueError (unset_message ''ENTITY_COLLECTION_ID'')))
      | Some entity_collection_id \<Rightarrow>
          if entity_collection_id = [] then
            ([], Inl (ValueError (unset_message ''ENTITY_COLLECTION_ID'')))
          else
            (case state entity_query of
               None \<Rightarrow>
                 ([], Inr [entity_pack \<mapsto> PyStr (''Entity retrieval failed: '' @ quoted ''entity_query''),
                           accept_entity \<mapsto> PyBool False])
             | Some q \<Rightarrow>
                 ([RagCall q entity_collection_id],
                  Inr (case query_h2ogpte_rag q entity_collection_id of
                         Content entity_content \<Rightarrow>
                           [entity_pack \<mapsto> PyStr (''Entity Analysis:\<newline>'' @ entity_content),
                            accept_entity \<mapsto> PyBool False]
                       | Raised e \<Rightarrow>
                           [entity_pack \<mapsto> PyStr (''Entity retrieval failed: '' @ e),
                            accept_entity \<mapsto> PyBool False]))))"

definition rag_market ::
  "(string \<rightharpoonup> string) \<Rightarrow> (pyval \<Rightarrow> string \<Rightarrow> reply) \<Rightarrow> state \<Rightarrow> state io" where
  "rag_market getenv query_h2ogpte_rag state =
     (case getenv ''MARKET_COLLECTION_ID'' of
        None \<Rightarrow> ([], Inl (ValueError (unset_message ''MARKET_COLLECTION_ID'')))
      | Some market_collection_id \<Rightarrow>
          if market_collection_id = [] then
            ([], Inl (ValueError (unset_message ''MARKET_COLLECTION_ID'')))
          else
            (case state market_query of
               None \<Rightarrow>
                 ([], Inr [market_pack \<mapsto> PyStr (''Market retrieval failed: '' @ quoted ''market_query''),
                           accept_market \<mapsto> PyBool False])
             | Some q \<Rightarrow>
                 ([RagCall q market_collection_id],
                  Inr (case query_h2ogpte_rag q market_collection_id of
                         Content market_content \<Rightarrow>
                           [market_pack \<mapsto> PyStr (''Market Analysis:\<newline>'' @ market_content),
                            accept_market \<mapsto> PyBool False]
                       | Raised e \<Rightarrow>
                           [market_pack \<mapsto> PyStr (''Market retrieval failed: '' @ e),
                            accept_market \<mapsto> PyBool False]))))"

section \<open>Synthesis\<close>

text \<open>
  The prompt is the f-string of \<^verbatim>\<open>synthesize_recommendation\<close>, with the three packs
  embedded. It is built before the \<^verbatim>\<open>try\<close>, with the subscripts
  \<^verbatim>\<open>state['policy_pack']\<close>, \<^verbatim>\<open>state['entity_pack']\<close> and
  \<^verbatim>\<open>state['market_pack']\<close> in this order: an absent pack raises \<^verbatim>\<open>KeyError\<close>
  out of the node. Only the call of the generation service is guarded.
\<close>

definition synthesis_prompt :: "pyval \<Rightarrow> pyval \<Rightarrow> pyval \<Rightarrow> string" where
  "synthesis_prompt pp ep mp =
     ''\<newline>''
     @ ''    Based on the following information, create a comprehensive credit renewal memo:\<newline>''
     @ ''\<newline>''
     @ ''    Policy Context:\<newline>''
     @ ''    '' @ py_str pp @ ''\<newline>''
     @ ''\<newline>''
     @ ''    Entity Analysis:\<newline>''
     @ ''    '' @ py_str ep @ ''\<newline>''
     @ ''\<newline>''
     @ ''    Market Analysis:\<newline>''
     @ ''    '' @ py_str mp @ ''\<newline>''
     @ ''\<newline>''
     @ ''    Please provide:\<newline>''
     @ ''    1. Credit rating recommendation\<newline>''
     @ ''    2. Key covenants and conditions\<newline>''
     @ ''    3. Pricing recommendations\<newline>''
     @ ''    4. Risk factors and mitigants\<newline>''
     @ ''    5. Citations and supporting evidence\<newline>''
     @ ''\<newline>''
     @ ''    Format as a professional credit memo.\<newline>''
     @ ''    ''"

text \<open>
  The node of \<^verbatim>\<open>graph.py\<close>, the one the graph runs: it assigns
  \<^verbatim>\<open>state['credit_memo']\<close> and returns the whole dictionary.
\<close>

definition synthesize_recommendation :: "(string \<Rightarrow> reply) \<Rightarrow> state \<Rightarrow> state io" where
  "synthesize_recommendation query_h2ogpte_llm state =
     (case state policy_pack of
        None \<Rightarrow> ([], Inl (KeyError ''policy_pack''))
      | Some pp \<Rightarrow>
     (case state entity_pack of
        None \<Rightarrow> ([], Inl (KeyError ''entity_pack''))
      | Some ep \<Rightarrow>
     (case state market_pack of
        None \<Rightarrow> ([], Inl (KeyError ''market_pack''))
      | Some mp \<Rightarrow>
          ([LlmCall (synthesis_prompt pp ep mp)],
           Inr (case query_h2ogpte_llm (synthesis_prompt pp ep mp) of
                  Content memo \<Rightarrow> state(credit_memo \<mapsto> PyStr memo)
                | Raised e \<Rightarrow> state(credit_memo \<mapsto> PyStr (''Synthesis failed: '' @ e)))))))"

text \<open>
  The node of the same name in \<^verbatim>\<open>h2ogpte_nodes.py\<close>: the same prompt and call, but it
  returns a dictionary with the one key \<^verbatim>\<open>credit_memo\<close>.
\<close>

definition nodes_synthesize_recommendation :: "(string \<Rightarrow> reply) \<Rightarrow> state \<Rightarrow> state io" where
  "nodes_synthesize_recommendation query_h2ogpte_llm state =
     (case state policy_pack of
        None \<Rightarrow> ([], Inl (KeyError ''policy_pack''))
      | Some pp \<Rightarrow>
     (case state entity_pack of
        None \<Rightarrow> ([], Inl (KeyError ''entity_pack''))
      | Some ep \<Rightarrow>
     (case state market_pack of
        None \<Rightarrow> ([], Inl (KeyError ''market_pack''))
      | Some mp \<Rightarrow>
          ([LlmCall (synthesis_prompt pp ep mp)],
           Inr (case query_h2ogpte_llm (synthesis_prompt pp ep mp) of
                  Content memo \<Rightarrow> [credit_memo \<mapsto> PyStr memo]
                | Raised e \<Rightarrow> [credit_memo \<mapsto> PyStr (''Synthesis failed: '' @ e)])))))"

section \<open>The review nodes\<close>

text \<open>
  A review node calls \<^verbatim>\<open>interrupt\<close> with a payload built from the state and returns a
  dictionary with the one acceptance key, bound to what \<^verbatim>\<open>interrupt\<close> returned: the
  value the run was resumed with. That value is the first argument here. The payload is
  shown to the reviewer and never read back by the workflow; it is not part of the model.
\<close>

definition hitl_policy_review :: "pyval \<Rightarrow> state \<Rightarrow> state" where
  "hitl_policy_review accept state = [accept_policy \<mapsto> accept]"

definition hitl_entity_review :: "pyval \<Rightarrow> state \<Rightarrow> state" where
  "hitl_entity_review accept state = [accept_entity \<mapsto> accept]"

definition hitl_market_review :: "pyval \<Rightarrow> state \<Rightarrow> state" where
  "hitl_market_review accept state = [accept_market \<mapsto> accept]"

definition hitl_final_approval :: "pyval \<Rightarrow> state \<Rightarrow> state" where
  "hitl_final_approval accept state = [accept_synthesis \<mapsto> accept]"

section \<open>Routing\<close>

definition should_rerun_policy :: "state \<Rightarrow> bool" where
  "should_rerun_policy state = (\<not> truthy (get state accept_policy (PyBool False)))"

definition should_rerun_entity :: "state \<Rightarrow> bool" where
  "should_rerun_entity state = (\<not> truthy (get state accept_entity (PyBool False)))"

definition should_rerun_market :: "state \<Rightarrow> bool" where
  "should_rerun_market state = (\<not> truthy (get state accept_market (PyBool False)))"

definition should_synthesize :: "state \<Rightarrow> bool" where
  "should_synthesize state =
     list_all truthy
       [get state accept_policy (PyBool False),
        get state accept_entity (PyBool False),
        get state accept_market (PyBool False)]"

text \<open>
  The four path functions handed to \<^verbatim>\<open>add_conditional_edges\<close>; in the source they are
  lambdas without a name.
\<close>

definition route_after_policy :: "state \<Rightarrow> node" where
  "route_after_policy state = (if should_rerun_policy state then RAG_Policy else Synthesize)"

definition route_after_entity :: "state \<Rightarrow> node" where
  "route_after_entity state = (if should_rerun_entity state then RAG_Entity else Synthesize)"

definition route_after_market :: "state \<Rightarrow> node" where
  "route_after_market state = (if should_rerun_market state then RAG_Market else Synthesize)"

definition route_after_final :: "state \<Rightarrow> node" where
  "route_after_final state =
     (if \<not> truthy (get state accept_synthesis (PyBool False)) then Synthesize else END)"

section \<open>The graph and its execution\<close>

text \<open>
  What lies outside a run: the environment variables, the retrieval and the generation
  service, and the value each review node is resumed with. One such record is given for
  every step of a run, so that a service may answer differently when it is asked again.
\<close>

record world =
  env :: "string \<rightharpoonup> string"
  retrieve :: "pyval \<Rightarrow> string \<Rightarrow> reply"
  generate :: "string \<Rightarrow> reply"
  decision :: "node \<Rightarrow> pyval"

text \<open>The nodes as \<^verbatim>\<open>add_node\<close> registers them.\<close>

fun run_node :: "world \<Rightarrow> node \<Rightarrow> state \<Rightarrow> state io" where
  "run_node w Ingest s = ([], Inr (ingest_renewal_alert s))"
| "run_node w RAG_Policy s = rag_policy (env w) (retrieve w) s"
| "run_node w RAG_Entity s = rag_entity (env w) (retrieve w) s"
| "run_node w RAG_Market s = rag_market (env w) (retrieve w) s"
| "run_node w HITL_Policy s = ([], Inr (hitl_policy_review (decision w HITL_Policy) s))"
| "run_node w HITL_Entity s = ([], Inr (hitl_entity_review (decision w HITL_Entity) s))"
| "run_node w HITL_Market s = ([], Inr (hitl_market_review (decision w HITL_Market) s))"
| "run_node w Synthesize s = synthesize_recommendation (generate w) s"
| "run_node w HITL_Final s = ([], Inr (hitl_final_approval (decision w HITL_Final) s))"
| "run_node w END s = ([], Inr Map.empty)"

text \<open>
  The edges as \<^verbatim>\<open>add_edge\<close> and \<^verbatim>\<open>add_conditional_edges\<close> declare them. The
  state a path function reads is the state the node ran on with the node's own writes
  applied.
\<close>

fun targets :: "node \<Rightarrow> state \<Rightarrow> node list" where
  "targets Ingest s = [RAG_Policy, RAG_Entity, RAG_Market]"
| "targets RAG_Policy s = [HITL_Policy]"
| "targets RAG_Entity s = [HITL_Entity]"
| "targets RAG_Market s = [HITL_Market]"
| "targets HITL_Policy s = [route_after_policy s]"
| "targets HITL_Entity s = [route_after_entity s]"
| "targets HITL_Market s = [route_after_market s]"
| "targets Synthesize s = [HITL_Final]"
| "targets HITL_Final s = [route_after_final s]"
| "targets END s = []"

text \<open>
  The graph library runs the graph in steps. Every node pending in a step is started on the
  same state; the step's log holds the collaborator calls of all of them. If a node raises,
  the step fails with that error and none of its writes is kept. Otherwise each returned
  dictionary is written key by key; the keys of \<^verbatim>\<open>OverallState\<close> are declared without
  a reducer, so a key written by two nodes of one step is an error. The nodes of the next
  step are the targets of the edges that leave the nodes of this one.
\<close>

record checkpoint =
  channels :: state
  pending :: "node list"

fun run_all ::
  "world \<Rightarrow> state \<Rightarrow> node list \<Rightarrow> (node \<times> call) list \<times> (error + (node \<times> state) list)" where
  "run_all w s [] = ([], Inr [])"
| "run_all w s (n # ns) =
     (case run_node w n s of (cs, r) \<Rightarrow>
      case run_all w s ns of (log, rs) \<Rightarrow>
        (map (Pair n) cs @ log,
         case r of
           Inl e \<Rightarrow> Inl e
         | Inr u \<Rightarrow> (case rs of Inl e' \<Rightarrow> Inl e' | Inr us \<Rightarrow> Inr ((n, u) # us))))"

definition writers :: "(node \<times> state) list \<Rightarrow> key \<Rightarrow> node list" where
  "writers us k = map fst (filter (\<lambda>(n, u). u k \<noteq> None) us)"

definition conflicts :: "(node \<times> state) list \<Rightarrow> key list" where
  "conflicts us = filter (\<lambda>k. 1 < length (writers us k)) OverallState"

definition apply_writes :: "state \<Rightarrow> (node \<times> state) list \<Rightarrow> state" where
  "apply_writes s us = foldl (++) s (map snd us)"

definition next_nodes :: "state \<Rightarrow> (node \<times> state) list \<Rightarrow> node list" where
  "next_nodes s us = remdups (concat (map (\<lambda>(n, u). targets n (s ++ u)) us))"

definition superstep ::
  "world \<Rightarrow> checkpoint \<Rightarrow> (node \<times> call) list \<times> (error + checkpoint)" where
  "superstep w c =
     (case run_all w (channels c) (pending c) of (log, r) \<Rightarrow>
        (log,
         case r of
           Inl e \<Rightarrow> Inl e
         | Inr us \<Rightarrow>
             (case conflicts us of
                k # ks \<Rightarrow> Inl (InvalidUpdateError k)
              | [] \<Rightarrow> Inr \<lparr>channels = apply_writes (channels c) us,
                           pending = next_nodes (channels c) us\<rparr>)))"

text \<open>A run: one step per world, stopped by the first step that fails.\<close>

fun run :: "world list \<Rightarrow> checkpoint \<Rightarrow> (node \<times> call) list \<times> (error + checkpoint)" where
  "run [] c = ([], Inr c)"
| "run (w # ws) c =
     (case superstep w c of
        (log, Inl e) \<Rightarrow> (log, Inl e)
      | (log, Inr c') \<Rightarrow> (case run ws c' of (log', r) \<Rightarrow> (log @ log', r)))"

text \<open>
  The graph is built with \<^verbatim>\<open>input_schema=CreditRenewalInput\<close>: of the dictionary handed
  to \<^verbatim>\<open>invoke\<close> the keys of that schema are written to the state, and the entry point
  is \<^verbatim>\<open>Ingest\<close>.
\<close>

definition CreditRenewalInput :: "key list" where
  "CreditRenewalInput = [borrower_id, sector]"

definition start :: "state \<Rightarrow> checkpoint" where
  "start input_data = \<lparr>channels = input_data |` set CreditRenewalInput, pending = [Ingest]\<rparr>"

text \<open>
  The steps above are those of the library's asynchronous interface. The node functions
  \<^verbatim>\<open>ingest_renewal_alert\<close>, \<^verbatim>\<open>rag_policy\<close>, \<^verbatim>\<open>rag_entity\<close>,
  \<^verbatim>\<open>rag_market\<close> and \<^verbatim>\<open>synthesize_recommendation\<close> are declared
  \<^verbatim>\<open>async def\<close>; the four review nodes are plain functions. The synchronous
  \<^verbatim>\<open>invoke\<close> cannot run a coroutine function: a step in which such a node is pending
  raises \<^verbatim>\<open>TypeError\<close> for it.
\<close>

fun coroutine :: "node \<Rightarrow> bool" where
  "coroutine Ingest = True"
| "coroutine RAG_Policy = True"
| "coroutine RAG_Entity = True"
| "coroutine RAG_Market = True"
| "coroutine HITL_Policy = False"
| "coroutine HITL_Entity = False"
| "coroutine HITL_Market = False"
| "coroutine Synthesize = True"
| "coroutine HITL_Final = False"
| "coroutine END = False"

fun invoke :: "world list \<Rightarrow> checkpoint \<Rightarrow> (node \<times> call) list \<times> (error + checkpoint)" where
  "invoke [] c = ([], Inr c)"
| "invoke (w # ws) c =
     (case filter coroutine (pending c) of
        n # ns \<Rightarrow> ([], Inl (TypeError n))
      | [] \<Rightarrow>
          (case superstep w c of
             (log, Inl e) \<Rightarrow> (log, Inl e)
           | (log, Inr c') \<Rightarrow> (case invoke ws c' of (log', r) \<Rightarrow> (log @ log', r))))"

text \<open>
  \<^verbatim>\<open>run_credit_renewal\<close> creates a checkpoint store with \<^verbatim>\<open>MemorySaver()\<close>,
  compiles the graph with it, builds the input, derives the thread identifier from the
  borrower and calls the synchronous \<^verbatim>\<open>invoke\<close> with both, which would run the step of
  \<^verbatim>\<open>Ingest\<close> and the step of the three retrieval nodes before the review nodes
  interrupt. Every call of \<^verbatim>\<open>MemorySaver()\<close> makes a new store: the stores are numbered
  in the order of their creation, and the number of stores made so far is passed in and
  returned increased. The record says what the call did: the store it made, the thread
  identifier it handed to \<^verbatim>\<open>invoke\<close>, and how \<^verbatim>\<open>invoke\<close> ended. When that is an
  error, \<^verbatim>\<open>run_credit_renewal\<close> raises it and returns nothing to its caller.
\<close>

definition input_data :: "string \<Rightarrow> string \<Rightarrow> state" where
  "input_data borrower sect =
     [borrower_id \<mapsto> PyStr borrower, sector \<mapsto> PyStr sect,
      policy_query \<mapsto> PyStr [], entity_query \<mapsto> PyStr [], market_query \<mapsto> PyStr [],
      policy_pack \<mapsto> PyStr [], entity_pack \<mapsto> PyStr [], market_pack \<mapsto> PyStr [],
      credit_memo \<mapsto> PyStr [], approved_memo \<mapsto> PyStr [],
      rerun_policy \<mapsto> PyBool False, rerun_entity \<mapsto> PyBool False,
      rerun_market \<mapsto> PyBool False,
      accept_policy \<mapsto> PyBool False, accept_entity \<mapsto> PyBool False,
      accept_market \<mapsto> PyBool False, accept_synthesis \<mapsto> PyBool False]"

record invocation =
  checkpointer :: nat
  thread_id :: string
  outcome :: "(node \<times> call) list \<times> (error + checkpoint)"

definition run_credit_renewal ::
  "world \<Rightarrow> string \<Rightarrow> string \<Rightarrow> nat \<Rightarrow> invocation \<times> nat" where
  "run_credit_renewal w borrower sect savers =
     (\<lparr>checkpointer = savers,
       thread_id = ''credit_renewal_'' @ borrower,
       outcome = invoke [w, w] (start (input_data borrower sect))\<rparr>,
      Suc savers)"

section \<open>Notions used to state the properties\<close>

text \<open>
  An acceptance flag reads false when its key is absent or bound to a value Python takes
  for false: this is \<^verbatim>\<open>not state.get(key, False)\<close>.
\<close>

definition flag_false :: "state \<Rightarrow> key \<Rightarrow> bool" where
  "flag_false state k = (case state k of None \<Rightarrow> True | Some v \<Rightarrow> \<not> truthy v)"

text \<open>
  A checkpoint thread is addressed by the store that holds it and the thread identifier.
\<close>

definition checkpoint_thread :: "invocation \<Rightarrow> nat \<times> string" where
  "checkpoint_thread i = (checkpointer i, thread_id i)"

text \<open>
  A world for concrete runs: the listed environment variables are set, every retrieval
  returns the identifier of the collection it was asked for, the generation service returns
  a fixed text, and the human accepts at the listed review nodes and rejects at the others.
\<close>

definition scenario :: "(string \<times> string) list \<Rightarrow> node list \<Rightarrow> world" where
  "scenario vars accepting =
     \<lparr>env = map_of vars,
      retrieve = (\<lambda>q c. Content c),
      generate = (\<lambda>p. Content ''memo''),
      decision = (\<lambda>n. PyBool (n \<in> set accepting))\<rparr>"

section \<open>Ingest\<close>

text \<open>
  Claim C8. Ingest is total: on every state that binds \<open>borrower_id\<close> and \<open>sector\<close> to
  strings, the empty string included, the node returns without an error and without a call of
  a collaborator (its log is empty and its result does not depend on the world), and the
  state it returns is the state it received with exactly the three query keys rebound, each
  to its fixed template over the two strings.
\<close>

theorem ingest_total:
  assumes "state borrower_id = Some (PyStr b)" and "state sector = Some (PyStr sec)"
  shows "run_node w Ingest state = ([], Inr (ingest_renewal_alert state)) \<and>
         ingest_renewal_alert state =
           state(policy_query \<mapsto> PyStr (''Credit policy and underwriting guidelines for '' @ b
                                         @ '' in '' @ sec @ '' sector''),
                 entity_query \<mapsto> PyStr (''Financial data, credit history, and risk profile for '' @ b),
                 market_query \<mapsto> PyStr (''Market conditions, sector analysis, and economic indicators for ''
                                         @ sec @ '' sector''))"
  using assms by (simp add: ingest_renewal_alert_def get_def)

theorem ingest_total_witness:
  "\<forall>w. run_node w Ingest [borrower_id \<mapsto> PyStr [], sector \<mapsto> PyStr []] =
     ([], Inr ([borrower_id \<mapsto> PyStr [], sector \<mapsto> PyStr [],
                policy_query \<mapsto> PyStr ''Credit policy and underwriting guidelines for  in  sector'',
                entity_query \<mapsto> PyStr ''Financial data, credit history, and risk profile for '',
                market_query \<mapsto> PyStr ''Market conditions, sector analysis, and economic indicators for  sector'']))"
  using ingest_total [of "[borrower_id \<mapsto> PyStr [], sector \<mapsto> PyStr []]" "[]" "[]"]
  by simp

text \<open>
  Claim C9. When \<open>borrower_id\<close> is absent from the state, Ingest writes the queries with
  the borrower \<^verbatim>\<open>TechManufacture Inc\<close>; when \<open>sector\<close> is absent, with the sector
  \<^verbatim>\<open>Advanced Manufacturing\<close>. It does not fail and does not use an empty string. The
  other name is whatever the state holds for it, or its own default.
\<close>

theorem ingest_defaults:
  "(state borrower_id = None \<longrightarrow>
      ingest_renewal_alert state policy_query =
        Some (PyStr (''Credit policy and underwriting guidelines for TechManufacture Inc in ''
                     @ py_str (get state sector (PyStr ''Advanced Manufacturing'')) @ '' sector'')) \<and>
      ingest_renewal_alert state entity_query =
        Some (PyStr ''Financial data, credit history, and risk profile for TechManufacture Inc'')) \<and>
   (state sector = None \<longrightarrow>
      ingest_renewal_alert state policy_query =
        Some (PyStr (''Credit policy and underwriting guidelines for ''
                     @ py_str (get state borrower_id (PyStr ''TechManufacture Inc''))
                     @ '' in Advanced Manufacturing sector'')) \<and>
      ingest_renewal_alert state market_query =
        Some (PyStr ''Market conditions, sector analysis, and economic indicators for Advanced Manufacturing sector''))"
  by (simp add: ingest_renewal_alert_def get_def Let_def)

theorem ingest_defaults_witness:
  "ingest_renewal_alert Map.empty policy_query =
     Some (PyStr ''Credit policy and underwriting guidelines for TechManufacture Inc in Advanced Manufacturing sector'') \<and>
   ingest_renewal_alert Map.empty entity_query =
     Some (PyStr ''Financial data, credit history, and risk profile for TechManufacture Inc'') \<and>
   ingest_renewal_alert Map.empty market_query =
     Some (PyStr ''Market conditions, sector analysis, and economic indicators for Advanced Manufacturing sector'')"
  using ingest_defaults [of Map.empty] by (simp add: get_def)

section \<open>The run key\<close>

lemma run_credit_renewal_raises:
  "outcome (fst (run_credit_renewal w borrower sect savers)) = ([], Inl (TypeError Ingest))"
  by (simp add: run_credit_renewal_def start_def)

text \<open>
  Claim C10, as the code has it. The thread identifier that \<^verbatim>\<open>run_credit_renewal\<close>
  hands to the graph is the string \<^verbatim>\<open>credit_renewal_\<close> followed by the borrower. It is a
  function of the borrower alone: two invocations with the same borrower, whatever their
  sectors, the answers of the collaborators and the stores made before, use the same
  identifier. Each invocation makes a checkpoint store of its own, the next unused one. So
  two invocations address the same checkpoint thread only if they are given the same store
  count and the same borrower; one made after another never does.
\<close>

theorem run_key_from_borrower:
  "thread_id (fst (run_credit_renewal w borrower sect n)) = ''credit_renewal_'' @ borrower \<and>
   thread_id (fst (run_credit_renewal w' borrower sect' n')) =
     thread_id (fst (run_credit_renewal w borrower sect n)) \<and>
   checkpointer (fst (run_credit_renewal w borrower sect n)) = n \<and>
   snd (run_credit_renewal w borrower sect n) = Suc n \<and>
   (checkpoint_thread (fst (run_credit_renewal w borrower sect n)) =
      checkpoint_thread (fst (run_credit_renewal w' borrower' sect' n'))
    \<longleftrightarrow> n = n' \<and> borrower = borrower') \<and>
   checkpoint_thread (fst (run_credit_renewal w borrower sect n)) \<noteq>
     checkpoint_thread
       (fst (run_credit_renewal w' borrower' sect' (snd (run_credit_renewal w borrower sect n))))"
  by (simp add: run_credit_renewal_def checkpoint_thread_def)

text \<open>
  The claim as the specification words it, that two invocations with equal borrower address
  the same checkpoint thread, fails: the second of two invocations for \<^verbatim>\<open>Acme Co\<close> uses
  the same thread identifier in another store.
\<close>

theorem run_key_same_thread_counterexample:
  "thread_id (fst (run_credit_renewal (scenario [] []) ''Acme Co'' ''Retail''
       (snd (run_credit_renewal (scenario [] []) ''Acme Co'' ''Retail'' 0)))) =
     thread_id (fst (run_credit_renewal (scenario [] []) ''Acme Co'' ''Retail'' 0)) \<and>
   checkpoint_thread (fst (run_credit_renewal (scenario [] []) ''Acme Co'' ''Retail''
       (snd (run_credit_renewal (scenario [] []) ''Acme Co'' ''Retail'' 0)))) \<noteq>
     checkpoint_thread (fst (run_credit_renewal (scenario [] []) ''Acme Co'' ''Retail'' 0))"
  by (simp add: run_credit_renewal_def checkpoint_thread_def)

section \<open>Routing after the three domain reviews\<close>

text \<open>
  Claim C4. After each of the three domain review nodes the graph goes back to that domain's
  retrieval node if and only if that domain's acceptance flag reads false (absent, or any
  value Python takes for false), and to \<open>Synthesize\<close> otherwise. The choice is a function of
  that one flag: two states that agree on it are routed alike, whatever the other two flags
  hold.
\<close>

theorem routing_after_review:
  "targets HITL_Policy s = [if flag_false s accept_policy then RAG_Policy else Synthesize] \<and>
   targets HITL_Entity s = [if flag_false s accept_entity then RAG_Entity else Synthesize] \<and>
   targets HITL_Market s = [if flag_false s accept_market then RAG_Market else Synthesize] \<and>
   (s accept_policy = s' accept_policy \<longrightarrow> targets HITL_Policy s = targets HITL_Policy s') \<and>
   (s accept_entity = s' accept_entity \<longrightarrow> targets HITL_Entity s = targets HITL_Entity s') \<and>
   (s accept_market = s' accept_market \<longrightarrow> targets HITL_Market s = targets HITL_Market s')"
  by (simp add: flag_false_def route_after_policy_def route_after_entity_def route_after_market_def
      should_rerun_policy_def should_rerun_entity_def should_rerun_market_def get_def
      split: option.splits)

theorem routing_after_review_witness:
  "targets HITL_Policy [accept_policy \<mapsto> PyInt 0, accept_entity \<mapsto> PyBool True] = [RAG_Policy] \<and>
   targets HITL_Policy [accept_policy \<mapsto> PyInt 0, accept_entity \<mapsto> PyBool True] =
     targets HITL_Policy [accept_policy \<mapsto> PyInt 0, accept_market \<mapsto> PyBool True] \<and>
   targets HITL_Entity [accept_entity \<mapsto> PyStr ''yes''] = [Synthesize] \<and>
   targets HITL_Entity [accept_entity \<mapsto> PyStr ''yes''] =
     targets HITL_Entity [accept_entity \<mapsto> PyStr ''yes'', accept_policy \<mapsto> PyNone] \<and>
   targets HITL_Market Map.empty = [RAG_Market] \<and>
   targets HITL_Market Map.empty = targets HITL_Market [accept_policy \<mapsto> PyBool True]"
  using routing_after_review
    [of "[accept_policy \<mapsto> PyInt 0, accept_entity \<mapsto> PyBool True]"
        "[accept_policy \<mapsto> PyInt 0, accept_market \<mapsto> PyBool True]"]
    routing_after_review
    [of "[accept_entity \<mapsto> PyStr ''yes'']"
        "[accept_entity \<mapsto> PyStr ''yes'', accept_policy \<mapsto> PyNone]"]
    routing_after_review [of Map.empty "[accept_policy \<mapsto> PyBool True]"]
  by (simp add: flag_false_def route_after_policy_def route_after_entity_def
      route_after_market_def should_rerun_policy_def should_rerun_entity_def
      should_rerun_market_def get_def)

section \<open>The retrieval nodes\<close>

lemma rag_policy_contract:
  assumes "getenv ''POLICY_COLLECTION_ID'' = Some cid" and "cid \<noteq> []"
  shows "\<exists>u. snd (rag_policy getenv rag state) = Inr u \<and>
             dom u = {policy_pack, accept_policy} \<and> u accept_policy = Some (PyBool False) \<and>
             (\<forall>q t. state policy_query = Some q \<and> rag q cid = Content t \<longrightarrow>
                    u policy_pack = Some (PyStr (''Policy Analysis:\<newline>'' @ t))) \<and>
             (\<forall>q m. state policy_query = Some q \<and> rag q cid = Raised m \<longrightarrow>
                    u policy_pack = Some (PyStr (''Policy retrieval failed: '' @ m)))"
  using assms by (auto simp: rag_policy_def split: option.splits reply.splits)

lemma rag_entity_contract:
  assumes "getenv ''ENTITY_COLLECTION_ID'' = Some cid" and "cid \<noteq> []"
  shows "\<exists>u. snd (rag_entity getenv rag state) = Inr u \<and>
             dom u = {entity_pack, accept_entity} \<and> u accept_entity = Some (PyBool False) \<and>
             (\<forall>q t. state entity_query = Some q \<and> rag q cid = Content t \<longrightarrow>
                    u entity_pack = Some (PyStr (''Entity Analysis:\<newline>'' @ t))) \<and>
             (\<forall>q m. state entity_query = Some q \<and> rag q cid = Raised m \<longrightarrow>
                    u entity_pack = Some (PyStr (''Entity retrieval failed: '' @ m)))"
  using assms by (auto simp: rag_entity_def split: option.splits reply.splits)

lemma rag_market_contract:
  assumes "getenv ''MARKET_COLLECTION_ID'' = Some cid" and "cid \<noteq> []"
  shows "\<exists>u. snd (rag_market getenv rag state) = Inr u \<and>
             dom u = {market_pack, accept_market} \<and> u accept_market = Some (PyBool False) \<and>
             (\<forall>q t. state market_query = Some q \<and> rag q cid = Content t \<longrightarrow>
                    u market_pack = Some (PyStr (''Market Analysis:\<newline>'' @ t))) \<and>
             (\<forall>q m. state market_query = Some q \<and> rag q cid = Raised m \<longrightarrow>
                    u market_pack = Some (PyStr (''Market retrieval failed: '' @ m)))"
  using assms by (auto simp: rag_market_def split: option.splits reply.splits)

text \<open>
  Claim C3. For each of the three domains, when the domain's collection identifier is set and
  not empty, the retrieval node returns a dictionary and never an error, whatever the
  retrieval service does. The dictionary binds exactly the domain's pack and the domain's
  acceptance flag, and the flag is \<^verbatim>\<open>False\<close>. When the service returns a text the pack
  is the domain's heading, \<^verbatim>\<open>Policy Analysis:\<close>, \<^verbatim>\<open>Entity Analysis:\<close> or
  \<^verbatim>\<open>Market Analysis:\<close>, a line break and the text; when the call raises with a message
  the pack is \<^verbatim>\<open>Policy retrieval failed: \<close> (or Entity, Market) followed by the message.
\<close>

theorem retrieval_never_raises:
  "(getenv ''POLICY_COLLECTION_ID'' = Some cid \<and> cid \<noteq> [] \<longrightarrow>
      (\<exists>u. snd (rag_policy getenv rag state) = Inr u \<and>
           dom u = {policy_pack, accept_policy} \<and> u accept_policy = Some (PyBool False) \<and>
           (\<forall>q t. state policy_query = Some q \<and> rag q cid = Content t \<longrightarrow>
                  u policy_pack = Some (PyStr (''Policy Analysis:\<newline>'' @ t))) \<and>
           (\<forall>q m. state policy_query = Some q \<and> rag q cid = Raised m \<longrightarrow>
                  u policy_pack = Some (PyStr (''Policy retrieval failed: '' @ m))))) \<and>
   (getenv ''ENTITY_COLLECTION_ID'' = Some cid \<and> cid \<noteq> [] \<longrightarrow>
      (\<exists>u. snd (rag_entity getenv rag state) = Inr u \<and>
           dom u = {entity_pack, accept_entity} \<and> u accept_entity = Some (PyBool False) \<and>
           (\<forall>q t. state entity_query = Some q \<and> rag q cid = Content t \<longrightarrow>
                  u entity_pack = Some (PyStr (''Entity Analysis:\<newline>'' @ t))) \<and>
           (\<forall>q m. state entity_query = Some q \<and> rag q cid = Raised m \<longrightarrow>
                  u entity_pack = Some (PyStr (''Entity retrieval failed: '' @ m))))) \<and>
   (getenv ''MARKET_COLLECTION_ID'' = Some cid \<and> cid \<noteq> [] \<longrightarrow>
      (\<exists>u. snd (rag_market getenv rag state) = Inr u \<and>
           dom u = {market_pack, accept_market} \<and> u accept_market = Some (PyBool False) \<and>
           (\<forall>q t. state market_query = Some q \<and> rag q cid = Content t \<longrightarrow>
                  u market_pack = Some (PyStr (''Market Analysis:\<newline>'' @ t))) \<and>
           (\<forall>q m. state market_query = Some q \<and> rag q cid = Raised m \<longrightarrow>
                  u market_pack = Some (PyStr (''Market retrieval failed: '' @ m)))))"
  using rag_policy_contract [of getenv cid rag state]
    rag_entity_contract [of getenv cid rag state]
    rag_market_contract [of getenv cid rag state]
  by blast

theorem retrieval_never_raises_witness:
  "snd (rag_policy [''POLICY_COLLECTION_ID'' \<mapsto> ''c1'']
         (\<lambda>q c. if c = ''c1'' then Raised ''timeout'' else Content ''text'')
         [policy_query \<mapsto> PyStr ''q'', accept_policy \<mapsto> PyBool True])
     = Inr [policy_pack \<mapsto> PyStr ''Policy retrieval failed: timeout'', accept_policy \<mapsto> PyBool False] \<and>
   snd (rag_entity [''ENTITY_COLLECTION_ID'' \<mapsto> ''c1'']
         (\<lambda>q c. Content ''text'') [entity_query \<mapsto> PyStr ''q''])
     = Inr [entity_pack \<mapsto> PyStr ''Entity Analysis:\<newline>text'', accept_entity \<mapsto> PyBool False] \<and>
   snd (rag_market [''MARKET_COLLECTION_ID'' \<mapsto> ''c1'']
         (\<lambda>q c. Content ''text'') [market_query \<mapsto> PyStr ''q''])
     = Inr [market_pack \<mapsto> PyStr ''Market Analysis:\<newline>text'', accept_market \<mapsto> PyBool False]"
  using retrieval_never_raises
    [of "[''POLICY_COLLECTION_ID'' \<mapsto> ''c1'']" "''c1''"
        "\<lambda>q c. if c = ''c1'' then Raised ''timeout'' else Content ''text''"
        "[policy_query \<mapsto> PyStr ''q'', accept_policy \<mapsto> PyBool True]"]
  by (simp add: rag_policy_def rag_entity_def rag_market_def)

section \<open>Rejecting at a domain review\<close>

lemma rag_policy_writes:
  assumes "snd (rag_policy getenv rag s1) = Inr u"
  shows "u accept_policy = Some (PyBool False) \<and> dom u = {policy_pack, accept_policy}"
  using assms by (auto simp: rag_policy_def split: option.splits if_splits reply.splits)

lemma policy_reject_frame:
  assumes "\<not> truthy d"
  shows "let s1 = s ++ hitl_policy_review d s in
       s1 accept_policy = Some d \<and> flag_false s1 accept_policy \<and>
       targets HITL_Policy s1 = [RAG_Policy] \<and>
       (\<forall>k. k \<noteq> accept_policy \<longrightarrow> s1 k = s k) \<and>
       (\<forall>u. snd (rag_policy getenv rag s1) = Inr u \<longrightarrow>
          (s1 ++ u) accept_policy = Some (PyBool False) \<and>
          (\<forall>k. k \<notin> {policy_pack, accept_policy} \<longrightarrow> (s1 ++ u) k = s k))"
proof -
  define s1 where "s1 = s ++ hitl_policy_review d s"
  have a: "s1 accept_policy = Some d"
    by (simp add: s1_def hitl_policy_review_def)
  have b: "s1 k = s k" if "k \<noteq> accept_policy" for k
    using that by (simp add: s1_def hitl_policy_review_def map_add_def)
  have c: "flag_false s1 accept_policy"
    using assms a by (simp add: flag_false_def)
  have r: "targets HITL_Policy s1 = [RAG_Policy]"
    using assms a by (simp add: route_after_policy_def should_rerun_policy_def get_def)
  have f: "(s1 ++ u) accept_policy = Some (PyBool False) \<and>
           (\<forall>k. k \<notin> {policy_pack, accept_policy} \<longrightarrow> (s1 ++ u) k = s k)"
    if "snd (rag_policy getenv rag s1) = Inr u" for u
  proof -
    from rag_policy_writes [OF that]
    have w: "u accept_policy = Some (PyBool False)" and d: "dom u = {policy_pack, accept_policy}"
      by simp_all
    have "(s1 ++ u) k = s k" if "k \<notin> {policy_pack, accept_policy}" for k
    proof -
      from that d have "u k = None" by blast
      with that b show ?thesis by (simp add: map_add_def)
    qed
    with w show ?thesis by (simp add: map_add_def)
  qed
  from a b c r f show ?thesis
    unfolding Let_def s1_def [symmetric] by blast
qed

lemma rag_entity_writes:
  assumes "snd (rag_entity getenv rag s1) = Inr u"
  shows "u accept_entity = Some (PyBool False) \<and> dom u = {entity_pack, accept_entity}"
  using assms by (auto simp: rag_entity_def split: option.splits if_splits reply.splits)

lemma entity_reject_frame:
  assumes "\<not> truthy d"
  shows "let s1 = s ++ hitl_entity_review d s in
       s1 accept_entity = Some d \<and> flag_false s1 accept_entity \<and>
       targets HITL_Entity s1 = [RAG_Entity] \<and>
       (\<forall>k. k \<noteq> accept_entity \<longrightarrow> s1 k = s k) \<and>
       (\<forall>u. snd (rag_entity getenv rag s1) = Inr u \<longrightarrow>
          (s1 ++ u) accept_entity = Some (PyBool False) \<and>
          (\<forall>k. k \<notin> {entity_pack, accept_entity} \<longrightarrow> (s1 ++ u) k = s k))"
proof -
  define s1 where "s1 = s ++ hitl_entity_review d s"
  have a: "s1 accept_entity = Some d"
    by (simp add: s1_def hitl_entity_review_def)
  have b: "s1 k = s k" if "k \<noteq> accept_entity" for k
    using that by (simp add: s1_def hitl_entity_review_def map_add_def)
  have c: "flag_false s1 accept_entity"
    using assms a by (simp add: flag_false_def)
  have r: "targets HITL_Entity s1 = [RAG_Entity]"
    using assms a by (simp add: route_after_entity_def should_rerun_entity_def get_def)
  have f: "(s1 ++ u) accept_entity = Some (PyBool False) \<and>
           (\<forall>k. k \<notin> {entity_pack, accept_entity} \<longrightarrow> (s1 ++ u) k = s k)"
    if "snd (rag_entity getenv rag s1) = Inr u" for u
  proof -
    from rag_entity_writes [OF that]
    have w: "u accept_entity = Some (PyBool False)" and d: "dom u = {entity_pack, accept_entity}"
      by simp_all
    have "(s1 ++ u) k = s k" if "k \<notin> {entity_pack, accept_entity}" for k
    proof -
      from that d have "u k = None" by blast
      with that b show ?thesis by (simp add: map_add_def)
    qed
    with w show ?thesis by (simp add: map_add_def)
  qed
  from a b c r f show ?thesis
    unfolding Let_def s1_def [symmetric] by blast
qed

lemma rag_market_writes:
  assumes "snd (rag_market getenv rag s1) = Inr u"
  shows "u accept_market = Some (PyBool False) \<and> dom u = {market_pack, accept_market}"
  using assms by (auto simp: rag_market_def split: option.splits if_splits reply.splits)

lemma market_reject_frame:
  assumes "\<not> truthy d"
  shows "let s1 = s ++ hitl_market_review d s in
       s1 accept_market = Some d \<and> flag_false s1 accept_market \<and>
       targets HITL_Market s1 = [RAG_Market] \<and>
       (\<forall>k. k \<noteq> accept_market \<longrightarrow> s1 k = s k) \<and>
       (\<forall>u. snd (rag_market getenv rag s1) = Inr u \<longrightarrow>
          (s1 ++ u) accept_market = Some (PyBool False) \<and>
          (\<forall>k. k \<notin> {market_pack, accept_market} \<longrightarrow> (s1 ++ u) k = s k))"
proof -
  define s1 where "s1 = s ++ hitl_market_review d s"
  have a: "s1 accept_market = Some d"
    by (simp add: s1_def hitl_market_review_def)
  have b: "s1 k = s k" if "k \<noteq> accept_market" for k
    using that by (simp add: s1_def hitl_market_review_def map_add_def)
  have c: "flag_false s1 accept_market"
    using assms a by (simp add: flag_false_def)
  have r: "targets HITL_Market s1 = [RAG_Market]"
    using assms a by (simp add: route_after_market_def should_rerun_market_def get_def)
  have f: "(s1 ++ u) accept_market = Some (PyBool False) \<and>
           (\<forall>k. k \<notin> {market_pack, accept_market} \<longrightarrow> (s1 ++ u) k = s k)"
    if "snd (rag_market getenv rag s1) = Inr u" for u
  proof -
    from rag_market_writes [OF that]
    have w: "u accept_market = Some (PyBool False)" and d: "dom u = {market_pack, accept_market}"
      by simp_all
    have "(s1 ++ u) k = s k" if "k \<notin> {market_pack, accept_market}" for k
    proof -
      from that d have "u k = None" by blast
      with that b show ?thesis by (simp add: map_add_def)
    qed
    with w show ?thesis by (simp add: map_add_def)
  qed
  from a b c r f show ?thesis
    unfolding Let_def s1_def [symmetric] by blast
qed

text \<open>
  Claim C6. In each of the three domains, when the review node is resumed with a value Python
  takes for false, the domain's acceptance flag is bound to that value and reads false, and
  the edge that leaves the review node leads back to the domain's retrieval node; the review
  node's write changes no other key. When the retrieval node then returns, the flag is
  \<^verbatim>\<open>False\<close> and every key other than the domain's own pack and flag holds what it held
  before the review: in particular the packs and the flags of the other two domains.
\<close>

theorem reject_reruns_own_domain:
  assumes "\<not> truthy d"
  shows
   "(let s1 = s ++ hitl_policy_review d s in
       s1 accept_policy = Some d \<and> flag_false s1 accept_policy \<and>
       targets HITL_Policy s1 = [RAG_Policy] \<and>
       (\<forall>k. k \<noteq> accept_policy \<longrightarrow> s1 k = s k) \<and>
       (\<forall>u. snd (rag_policy getenv rag s1) = Inr u \<longrightarrow>
          (s1 ++ u) accept_policy = Some (PyBool False) \<and>
          (\<forall>k. k \<notin> {policy_pack, accept_policy} \<longrightarrow> (s1 ++ u) k = s k))) \<and>
    (let s1 = s ++ hitl_entity_review d s in
       s1 accept_entity = Some d \<and> flag_false s1 accept_entity \<and>
       targets HITL_Entity s1 = [RAG_Entity] \<and>
       (\<forall>k. k \<noteq> accept_entity \<longrightarrow> s1 k = s k) \<and>
       (\<forall>u. snd (rag_entity getenv rag s1) = Inr u \<longrightarrow>
          (s1 ++ u) accept_entity = Some (PyBool False) \<and>
          (\<forall>k. k \<notin> {entity_pack, accept_entity} \<longrightarrow> (s1 ++ u) k = s k))) \<and>
    (let s1 = s ++ hitl_market_review d s in
       s1 accept_market = Some d \<and> flag_false s1 accept_market \<and>
       targets HITL_Market s1 = [RAG_Market] \<and>
       (\<forall>k. k \<noteq> accept_market \<longrightarrow> s1 k = s k) \<and>
       (\<forall>u. snd (rag_market getenv rag s1) = Inr u \<longrightarrow>
          (s1 ++ u) accept_market = Some (PyBool False) \<and>
          (\<forall>k. k \<notin> {market_pack, accept_market} \<longrightarrow> (s1 ++ u) k = s k)))"
  using policy_reject_frame [OF assms, of s getenv rag]
    entity_reject_frame [OF assms, of s getenv rag]
    market_reject_frame [OF assms, of s getenv rag]
  by (rule conjI [OF _ conjI])


theorem reject_reruns_own_domain_witness:
  "\<not> truthy (PyInt 0) \<and>
   (let s = [policy_query \<mapsto> PyStr ''q'', policy_pack \<mapsto> PyStr ''old'',
             entity_pack \<mapsto> PyStr ''E'', accept_entity \<mapsto> PyBool True,
             market_pack \<mapsto> PyStr ''M''];
        s1 = s ++ hitl_policy_review (PyInt 0) s
    in targets HITL_Policy s1 = [RAG_Policy] \<and> s1 accept_policy = Some (PyInt 0) \<and>
       (case snd (rag_policy [''POLICY_COLLECTION_ID'' \<mapsto> ''c1''] (\<lambda>q c. Content ''new'') s1) of
          Inl e \<Rightarrow> False
        | Inr u \<Rightarrow>
            (s1 ++ u) accept_policy = Some (PyBool False) \<and>
            (s1 ++ u) policy_pack = Some (PyStr ''Policy Analysis:\<newline>new'') \<and>
            (s1 ++ u) entity_pack = Some (PyStr ''E'') \<and>
            (s1 ++ u) accept_entity = Some (PyBool True) \<and>
            (s1 ++ u) market_pack = Some (PyStr ''M'') \<and>
            (s1 ++ u) accept_market = None))"
  using reject_reruns_own_domain
    [of "PyInt 0"
        "[policy_query \<mapsto> PyStr ''q'', policy_pack \<mapsto> PyStr ''old'',
          entity_pack \<mapsto> PyStr ''E'', accept_entity \<mapsto> PyBool True,
          market_pack \<mapsto> PyStr ''M'']"
        "[''POLICY_COLLECTION_ID'' \<mapsto> ''c1'']" "\<lambda>q c. Content ''new''"]
  by (simp add: Let_def hitl_policy_review_def rag_policy_def route_after_policy_def
      should_rerun_policy_def get_def)

section \<open>Rejecting at the final review\<close>

lemma synthesize_result:
  assumes "s policy_pack = Some pp" and "s entity_pack = Some ep" and "s market_pack = Some mp"
  shows "synthesize_recommendation llm s =
           ([LlmCall (synthesis_prompt pp ep mp)],
            Inr (s(credit_memo \<mapsto>
                   PyStr (case llm (synthesis_prompt pp ep mp) of
                            Content memo \<Rightarrow> memo
                          | Raised e \<Rightarrow> ''Synthesis failed: '' @ e))))"
  using assms by (simp add: synthesize_recommendation_def split: reply.splits)

lemma nodes_synthesize_result:
  assumes "s policy_pack = Some pp" and "s entity_pack = Some ep" and "s market_pack = Some mp"
  shows "nodes_synthesize_recommendation llm s =
           ([LlmCall (synthesis_prompt pp ep mp)],
            Inr [credit_memo \<mapsto>
                   PyStr (case llm (synthesis_prompt pp ep mp) of
                            Content memo \<Rightarrow> memo
                          | Raised e \<Rightarrow> ''Synthesis failed: '' @ e)])"
  using assms by (simp add: nodes_synthesize_recommendation_def split: reply.splits)

lemma prompt_embeds:
  "\<exists>a b c d. \<forall>x y z. synthesis_prompt x y z = a @ py_str x @ b @ py_str y @ c @ py_str z @ d"
proof -
  let ?a = "''\<newline>''
     @ ''    Based on the following information, create a comprehensive credit renewal memo:\<newline>''
     @ ''\<newline>''
     @ ''    Policy Context:\<newline>''
     @ ''    ''"
  let ?b = "''\<newline>'' @ ''\<newline>'' @ ''    Entity Analysis:\<newline>'' @ ''    ''"
  let ?c = "''\<newline>'' @ ''\<newline>'' @ ''    Market Analysis:\<newline>'' @ ''    ''"
  let ?d = "''\<newline>''
     @ ''\<newline>''
     @ ''    Please provide:\<newline>''
     @ ''    1. Credit rating recommendation\<newline>''
     @ ''    2. Key covenants and conditions\<newline>''
     @ ''    3. Pricing recommendations\<newline>''
     @ ''    4. Risk factors and mitigants\<newline>''
     @ ''    5. Citations and supporting evidence\<newline>''
     @ ''\<newline>''
     @ ''    Format as a professional credit memo.\<newline>''
     @ ''    ''"
  have "\<forall>x y z. synthesis_prompt x y z = ?a @ py_str x @ ?b @ py_str y @ ?c @ py_str z @ ?d"
    by (simp add: synthesis_prompt_def)
  then show ?thesis by blast
qed

text \<open>
  Claim C7. When the final review node is resumed with a value Python takes for false, the
  edge that leaves it leads back to \<open>Synthesize\<close>, and its write changes no key but
  \<open>accept_synthesis\<close>. With the three packs present, \<open>Synthesize\<close> does not raise: it
  calls the generation service once, with the prompt built from the three packs of the
  current state, and binds \<open>credit_memo\<close> to the text the service returns for that prompt,
  or to \<^verbatim>\<open>Synthesis failed: \<close> followed by the message when the call raises. The prompt
  is a fixed text around the three packs, which it embeds in the order policy, entity, market.
  The call and the new memo are the same whatever memo the state held before, and every other
  key, the three packs among them, is left as it was. This holds for the node of
  \<^verbatim>\<open>graph.py\<close> and for the one of \<^verbatim>\<open>h2ogpte_nodes.py\<close>.
\<close>

theorem final_reject_resynthesizes:
  assumes "\<not> truthy d"
      and "s policy_pack = Some pp" and "s entity_pack = Some ep" and "s market_pack = Some mp"
  shows "targets HITL_Final (s ++ hitl_final_approval d s) = [Synthesize] \<and>
         (\<forall>k. k \<noteq> accept_synthesis \<longrightarrow> (s ++ hitl_final_approval d s) k = s k) \<and>
         (\<exists>a b c d. \<forall>x y z.
            synthesis_prompt x y z = a @ py_str x @ b @ py_str y @ c @ py_str z @ d) \<and>
         (\<forall>old. fst (synthesize_recommendation llm (s(credit_memo := old))) =
                  [LlmCall (synthesis_prompt pp ep mp)] \<and>
                fst (nodes_synthesize_recommendation llm (s(credit_memo := old))) =
                  [LlmCall (synthesis_prompt pp ep mp)]) \<and>
         (let memo = (case llm (synthesis_prompt pp ep mp) of
                        Content text \<Rightarrow> text
                      | Raised e \<Rightarrow> ''Synthesis failed: '' @ e)
          in (\<forall>old. snd (synthesize_recommendation llm (s(credit_memo := old))) =
                       Inr (s(credit_memo \<mapsto> PyStr memo)) \<and>
                     snd (nodes_synthesize_recommendation llm (s(credit_memo := old))) =
                       Inr [credit_memo \<mapsto> PyStr memo]) \<and>
             (\<forall>u. snd (synthesize_recommendation llm s) = Inr u \<or>
                   snd (nodes_synthesize_recommendation llm s) = Inr u \<longrightarrow>
                   (s ++ u) credit_memo = Some (PyStr memo) \<and>
                   (s ++ u) policy_pack = s policy_pack \<and>
                   (s ++ u) entity_pack = s entity_pack \<and>
                   (s ++ u) market_pack = s market_pack \<and>
                   (\<forall>k. k \<noteq> credit_memo \<longrightarrow> (s ++ u) k = s k)))"
proof -
  let ?memo = "case llm (synthesis_prompt pp ep mp) of
                 Content text \<Rightarrow> text | Raised e \<Rightarrow> ''Synthesis failed: '' @ e"
  have r: "targets HITL_Final (s ++ hitl_final_approval d s) = [Synthesize]"
    using assms(1) by (simp add: hitl_final_approval_def route_after_final_def get_def)
  have g: "(s ++ hitl_final_approval d s) k = s k" if "k \<noteq> accept_synthesis" for k
    using that by (simp add: hitl_final_approval_def map_add_def)
  have c: "fst (synthesize_recommendation llm (s(credit_memo := old))) =
             [LlmCall (synthesis_prompt pp ep mp)] \<and>
           fst (nodes_synthesize_recommendation llm (s(credit_memo := old))) =
             [LlmCall (synthesis_prompt pp ep mp)]" for old
    using synthesize_result [of "s(credit_memo := old)" pp ep mp llm]
      nodes_synthesize_result [of "s(credit_memo := old)" pp ep mp llm] assms(2-4)
    by simp
  have o: "snd (synthesize_recommendation llm (s(credit_memo := old))) =
             Inr (s(credit_memo \<mapsto> PyStr ?memo)) \<and>
           snd (nodes_synthesize_recommendation llm (s(credit_memo := old))) =
             Inr [credit_memo \<mapsto> PyStr ?memo]" for old
    using synthesize_result [of "s(credit_memo := old)" pp ep mp llm]
      nodes_synthesize_result [of "s(credit_memo := old)" pp ep mp llm] assms(2-4)
    by simp
  have f: "(s ++ u) credit_memo = Some (PyStr ?memo) \<and>
           (s ++ u) policy_pack = s policy_pack \<and>
           (s ++ u) entity_pack = s entity_pack \<and>
           (s ++ u) market_pack = s market_pack \<and>
           (\<forall>k. k \<noteq> credit_memo \<longrightarrow> (s ++ u) k = s k)"
    if "snd (synthesize_recommendation llm s) = Inr u \<or>
        snd (nodes_synthesize_recommendation llm s) = Inr u" for u
  proof -
    from that synthesize_result [OF assms(2-4), of llm]
      nodes_synthesize_result [OF assms(2-4), of llm]
    have "u = s(credit_memo \<mapsto> PyStr ?memo) \<or> u = [credit_memo \<mapsto> PyStr ?memo]"
      by auto
    then show ?thesis by (auto simp: map_add_def split: option.splits)
  qed
  have l: "(\<forall>old. snd (synthesize_recommendation llm (s(credit_memo := old))) =
                       Inr (s(credit_memo \<mapsto> PyStr ?memo)) \<and>
                     snd (nodes_synthesize_recommendation llm (s(credit_memo := old))) =
                       Inr [credit_memo \<mapsto> PyStr ?memo]) \<and>
             (\<forall>u. snd (synthesize_recommendation llm s) = Inr u \<or>
                   snd (nodes_synthesize_recommendation llm s) = Inr u \<longrightarrow>
                   (s ++ u) credit_memo = Some (PyStr ?memo) \<and>
                   (s ++ u) policy_pack = s policy_pack \<and>
                   (s ++ u) entity_pack = s entity_pack \<and>
                   (s ++ u) market_pack = s market_pack \<and>
                   (\<forall>k. k \<noteq> credit_memo \<longrightarrow> (s ++ u) k = s k))"
    using o f by blast
  from r g c l prompt_embeds show ?thesis unfolding Let_def by blast
qed

theorem final_reject_resynthesizes_witness:
  "\<not> truthy PyNone \<and>
   (let s = [policy_pack \<mapsto> PyStr ''P'', entity_pack \<mapsto> PyStr ''E'', market_pack \<mapsto> PyStr ''M'',
             credit_memo \<mapsto> PyStr ''first draft''];
        s1 = s ++ hitl_final_approval PyNone s;
        prompt =
     ''\<newline>    Based on the following information, create a comprehensive credit renewal memo:\<newline>\<newline>    Policy Context:\<newline>    P\<newline>\<newline>    Entity Analysis:\<newline>    E\<newline>\<newline>    Market Analysis:\<newline>    M\<newline>\<newline>    Please provide:\<newline>    1. Credit rating recommendation\<newline>    2. Key covenants and conditions\<newline>    3. Pricing recommendations\<newline>    4. Risk factors and mitigants\<newline>    5. Citations and supporting evidence\<newline>\<newline>    Format as a professional credit memo.\<newline>    '';
        llm = (\<lambda>p. if p = prompt then Raised ''timeout'' else Content ''other'')
    in targets HITL_Final s1 = [Synthesize] \<and>
       fst (synthesize_recommendation llm s1) = [LlmCall prompt] \<and>
       (case snd (synthesize_recommendation llm s1) of
          Inl e \<Rightarrow> False
        | Inr u \<Rightarrow>
            (s1 ++ u) credit_memo = Some (PyStr ''Synthesis failed: timeout'') \<and>
            (s1 ++ u) policy_pack = Some (PyStr ''P'') \<and>
            (s1 ++ u) entity_pack = Some (PyStr ''E'') \<and>
            (s1 ++ u) market_pack = Some (PyStr ''M'')))"
  using final_reject_resynthesizes
    [of PyNone
        "[policy_pack \<mapsto> PyStr ''P'', entity_pack \<mapsto> PyStr ''E'', market_pack \<mapsto> PyStr ''M'',
          credit_memo \<mapsto> PyStr ''first draft'']"
        "PyStr ''P''" "PyStr ''E''" "PyStr ''M''"
        "\<lambda>p. if p = synthesis_prompt (PyStr ''P'') (PyStr ''E'') (PyStr ''M'')
              then Raised ''timeout'' else Content ''other''"]
  by (simp add: Let_def hitl_final_approval_def synthesize_recommendation_def
      route_after_final_def get_def synthesis_prompt_def)

section \<open>Steps of the graph\<close>


lemma run_all_Inr:
  "snd (run_all w s ns) = Inr us \<Longrightarrow> (n, u) \<in> set us \<Longrightarrow>
   n \<in> set ns \<and> snd (run_node w n s) = Inr u"
proof (induction ns arbitrary: us)
  case Nil
  then show ?case by simp
next
  case (Cons m ms)
  then show ?case
    by (auto split: prod.splits sum.splits)
qed


lemma OverallState_all: "k \<in> set OverallState"
  by (cases k) (simp_all add: OverallState_def)

lemma conflicts_Nil: "conflicts us = [] \<Longrightarrow> length (writers us k) \<le> 1"
  using OverallState_all [of k] by (auto simp: conflicts_def filter_empty_conv)

lemma apply_writes_none: "writers us k = [] \<Longrightarrow> apply_writes s us k = s k"
proof (induction us arbitrary: s)
  case Nil
  then show ?case by (simp add: apply_writes_def)
next
  case (Cons x xs)
  obtain n u where x: "x = (n, u)" by (cases x)
  from Cons.prems x have uk: "u k = None" and rest: "writers xs k = []"
    by (auto simp: writers_def split: if_splits)
  have "apply_writes s (x # xs) k = apply_writes (s ++ u) xs k"
    by (simp add: apply_writes_def x)
  also have "\<dots> = (s ++ u) k" using Cons.IH [OF rest] .
  also have "\<dots> = s k" using uk by (simp add: map_add_def)
  finally show ?case .
qed

lemma apply_writes_unique:
  "(n, u) \<in> set us \<Longrightarrow> u k = Some v \<Longrightarrow> length (writers us k) \<le> 1 \<Longrightarrow>
   apply_writes s us k = Some v"
proof (induction us arbitrary: s)
  case Nil
  then show ?case by simp
next
  case (Cons x xs)
  obtain m t where x: "x = (m, t)" by (cases x)
  have step: "apply_writes s (x # xs) k = apply_writes (s ++ t) xs k"
    by (simp add: apply_writes_def x)
  show ?case
  proof (cases "t k")
    case None
    with Cons.prems x have "(n, u) \<in> set xs" and "length (writers xs k) \<le> 1"
      by (auto simp: writers_def)
    from Cons.IH [OF this(1) Cons.prems(2) this(2)] step show ?thesis by simp
  next
    case (Some v')
    with Cons.prems(3) x have rest: "writers xs k = []"
      by (simp add: writers_def)
    have "(n, u) \<notin> set xs"
    proof
      assume "(n, u) \<in> set xs"
      with Cons.prems(2) have "n \<in> set (writers xs k)"
        by (force simp: writers_def)
      with rest show False by simp
    qed
    with Cons.prems(1) x have "t = u" by simp
    with Cons.prems(2) have "(s ++ t) k = Some v" by (simp add: map_add_def)
    with apply_writes_none [OF rest, of "s ++ t"] step show ?thesis by simp
  qed
qed

lemma targets_END: "END \<in> set (targets n s) \<Longrightarrow> n = HITL_Final \<and> route_after_final s = END"
  by (cases n)
     (auto simp: route_after_policy_def route_after_entity_def route_after_market_def
        split: if_splits)

lemma superstep_Inr:
  assumes "snd (superstep w c) = Inr c'"
  obtains us where "snd (run_all w (channels c) (pending c)) = Inr us"
    and "conflicts us = []"
    and "channels c' = apply_writes (channels c) us"
    and "pending c' = next_nodes (channels c) us"
  using assms
  by (auto simp: superstep_def split: prod.splits sum.splits list.splits)

lemma superstep_END:
  assumes "snd (superstep w c) = Inr c'" and "END \<in> set (pending c')"
  shows "truthy (get (channels c') accept_synthesis (PyBool False))"
proof -
  from assms(1) obtain us where
    us: "snd (run_all w (channels c) (pending c)) = Inr us" and
    nc: "conflicts us = []" and
    ch: "channels c' = apply_writes (channels c) us" and
    pe: "pending c' = next_nodes (channels c) us"
    by (rule superstep_Inr)
  from assms(2) pe obtain n u where
    nu: "(n, u) \<in> set us" and e: "END \<in> set (targets n (channels c ++ u))"
    by (auto simp: next_nodes_def)
  from targets_END [OF e] have n: "n = HITL_Final"
    and r: "route_after_final (channels c ++ u) = END" by simp_all
  from run_all_Inr [OF us nu] n
  have u: "u = [accept_synthesis \<mapsto> decision w HITL_Final]"
    by (simp add: hitl_final_approval_def)
  from r u have t: "truthy (decision w HITL_Final)"
    by (simp add: route_after_final_def get_def split: if_splits)
  from u have "u accept_synthesis = Some (decision w HITL_Final)" by simp
  from apply_writes_unique [OF nu this conflicts_Nil [OF nc]] ch
  have "channels c' accept_synthesis = Some (decision w HITL_Final)" by simp
  with t show ?thesis by (simp add: get_def)
qed

lemma run_last:
  "snd (run ws c) = Inr c' \<Longrightarrow> c' = c \<or> (\<exists>w c0. snd (superstep w c0) = Inr c')"
proof (induction ws arbitrary: c)
  case Nil
  then show ?case by simp
next
  case (Cons w ws)
  obtain log r where s: "superstep w c = (log, r)" by (cases "superstep w c")
  show ?case
  proof (cases r)
    case (Inl e)
    with s Cons.prems show ?thesis by simp
  next
    case (Inr c1)
    with s Cons.prems have "snd (run ws c1) = Inr c'"
      by (simp split: prod.splits)
    from Cons.IH [OF this] have "c' = c1 \<or> (\<exists>w c0. snd (superstep w c0) = Inr c')" .
    moreover from s Inr have "snd (superstep w c) = Inr c1" by simp
    ultimately show ?thesis by blast
  qed
qed

section \<open>The final review and the end of a run\<close>

text \<open>
  Claim C5. The path function after the final review node returns \<open>Synthesize\<close> if and
  only if \<open>accept_synthesis\<close> reads false (absent, or a value Python takes for false), and
  the end of the graph otherwise. Consequently, whenever a step of the graph completes with
  the end node among the nodes it reached, \<open>accept_synthesis\<close> reads true in the state that
  step leaves; and so it does in every run from an initial input that reaches the end node.
\<close>

theorem terminal_only_when_accepted:
  "(route_after_final s = Synthesize \<longleftrightarrow> flag_false s accept_synthesis) \<and>
   (route_after_final s = END \<longleftrightarrow> \<not> flag_false s accept_synthesis) \<and>
   targets HITL_Final s = [route_after_final s] \<and>
   (snd (superstep w c) = Inr c' \<and> END \<in> set (pending c') \<longrightarrow>
      \<not> flag_false (channels c') accept_synthesis) \<and>
   (snd (run ws (start input)) = Inr c' \<and> END \<in> set (pending c') \<longrightarrow>
      \<not> flag_false (channels c') accept_synthesis)"
proof -
  have a: "(route_after_final s = Synthesize \<longleftrightarrow> flag_false s accept_synthesis) \<and>
           (route_after_final s = END \<longleftrightarrow> \<not> flag_false s accept_synthesis)"
    by (simp add: route_after_final_def flag_false_def get_def split: option.splits)
  have b: "\<not> flag_false (channels c') accept_synthesis"
    if "snd (superstep w c) = Inr c'" and "END \<in> set (pending c')" for w c
    using superstep_END [OF that] by (simp add: flag_false_def get_def split: option.splits)
  have d: "\<not> flag_false (channels c') accept_synthesis"
    if r: "snd (run ws (start input)) = Inr c'" and e: "END \<in> set (pending c')"
  proof -
    from run_last [OF r] show ?thesis
    proof
      assume "c' = start input"
      with e show ?thesis by (simp add: start_def)
    next
      assume "\<exists>w c0. snd (superstep w c0) = Inr c'"
      then obtain w c0 where "snd (superstep w c0) = Inr c'" by blast
      from b [OF this e] show ?thesis .
    qed
  qed
  have t: "targets HITL_Final s = [route_after_final s]" by simp
  from a t b d show ?thesis by blast
qed


theorem terminal_only_when_accepted_witness:
  "(let w = \<lparr>env = [''POLICY_COLLECTION_ID'' \<mapsto> ''p'', ''ENTITY_COLLECTION_ID'' \<mapsto> ''e'',
                    ''MARKET_COLLECTION_ID'' \<mapsto> ''m''],
             retrieve = (\<lambda>q c. Content c), generate = (\<lambda>p. Content ''memo''),
             decision = (\<lambda>n. PyBool True)\<rparr>
    in case snd (run [w, w, w, w, w] (start (input_data ''Acme Co'' ''Retail''))) of
         Inl e \<Rightarrow> False
       | Inr c' \<Rightarrow> pending c' = [END] \<and> \<not> flag_false (channels c') accept_synthesis \<and>
                  channels c' credit_memo = Some (PyStr ''memo''))"
proof -
  let ?w = "\<lparr>env = [''POLICY_COLLECTION_ID'' \<mapsto> ''p'', ''ENTITY_COLLECTION_ID'' \<mapsto> ''e'',
                    ''MARKET_COLLECTION_ID'' \<mapsto> ''m''],
             retrieve = (\<lambda>q c. Content c), generate = (\<lambda>p. Content ''memo''),
             decision = (\<lambda>n. PyBool True)\<rparr>"
  let ?r = "snd (run [?w, ?w, ?w, ?w, ?w] (start (input_data ''Acme Co'' ''Retail'')))"
  have "\<exists>c'. ?r = Inr c' \<and> pending c' = [END] \<and> channels c' credit_memo = Some (PyStr ''memo'')"
    by (simp add: start_def input_data_def CreditRenewalInput_def superstep_def conflicts_def
        writers_def OverallState_def apply_writes_def next_nodes_def ingest_renewal_alert_def
        rag_policy_def rag_entity_def rag_market_def get_def synthesize_recommendation_def
        hitl_policy_review_def hitl_entity_review_def hitl_market_review_def
        hitl_final_approval_def route_after_policy_def route_after_entity_def
        route_after_market_def route_after_final_def should_rerun_policy_def
        should_rerun_entity_def should_rerun_market_def)
  then obtain c' where r: "?r = Inr c'" and p: "pending c' = [END]"
    and m: "channels c' credit_memo = Some (PyStr ''memo'')" by blast
  from p have e: "END \<in> set (pending c')" by simp
  from terminal_only_when_accepted
    [of _ _ _ c' "[?w, ?w, ?w, ?w, ?w]" "input_data ''Acme Co'' ''Retail''"] r e
  have "\<not> flag_false (channels c') accept_synthesis" by blast
  with r p m show ?thesis by (simp add: Let_def)
qed


section \<open>A run without the policy collection identifier\<close>











section \<open>Entering Synthesize\<close>

text \<open>
  Claim C1 says that \<open>Synthesize\<close> runs only in states where \<open>accept_policy\<close>,
  \<open>accept_entity\<close> and \<open>accept_market\<close> all read true. The source states the same
  in \<^verbatim>\<open>should_synthesize\<close> (\<^verbatim>\<open># All RAGs must be accepted to proceed to synthesis\<close>),
  but no edge uses that function: each review node's edge tests its own flag only. In the run
  for \<^verbatim>\<open>Acme Co\<close> in which all retrievals succeed and the human accepts the policy
  pack and rejects the other two, the third step leaves \<open>Synthesize\<close> pending beside the
  entity and market retrieval nodes, in a state where \<^verbatim>\<open>should_synthesize\<close> is false; and
  in the fourth step \<open>Synthesize\<close> calls the generation service with the two rejected packs
  in its prompt.
\<close>

theorem synthesize_entered_after_one_acceptance:
  "map_sum id pending
     (snd (run (replicate 3 (scenario
             [(''POLICY_COLLECTION_ID'', ''pol''), (''ENTITY_COLLECTION_ID'', ''ent''),
              (''MARKET_COLLECTION_ID'', ''mkt'')] [HITL_Policy]))
           (start (input_data ''Acme Co'' ''Retail'')))) =
     Inr [Synthesize, RAG_Entity, RAG_Market] \<and>
   map_sum id (should_synthesize \<circ> channels)
     (snd (run (replicate 3 (scenario
             [(''POLICY_COLLECTION_ID'', ''pol''), (''ENTITY_COLLECTION_ID'', ''ent''),
              (''MARKET_COLLECTION_ID'', ''mkt'')] [HITL_Policy]))
           (start (input_data ''Acme Co'' ''Retail'')))) = Inr False \<and>
   (Synthesize,
    LlmCall (synthesis_prompt (PyStr ''Policy Analysis:\<newline>pol'')
               (PyStr ''Entity Analysis:\<newline>ent'') (PyStr ''Market Analysis:\<newline>mkt'')))
     \<in> set (fst (run (replicate 4 (scenario
             [(''POLICY_COLLECTION_ID'', ''pol''), (''ENTITY_COLLECTION_ID'', ''ent''),
              (''MARKET_COLLECTION_ID'', ''mkt'')] [HITL_Policy]))
           (start (input_data ''Acme Co'' ''Retail''))))"
proof -
  let ?w = "scenario [(''POLICY_COLLECTION_ID'', ''pol''), (''ENTITY_COLLECTION_ID'', ''ent''),
              (''MARKET_COLLECTION_ID'', ''mkt'')] [HITL_Policy]"
  let ?c0 = "start (input_data ''Acme Co'' ''Retail'')"
  have r3: "replicate 3 ?w = [?w, ?w, ?w]" and r4: "replicate 4 ?w = [?w, ?w, ?w, ?w]"
    by (simp_all add: numeral_3_eq_3 numeral_eq_Suc)
  note defs = scenario_def start_def input_data_def
      CreditRenewalInput_def superstep_def
      conflicts_def writers_def OverallState_def apply_writes_def next_nodes_def
      ingest_renewal_alert_def rag_policy_def rag_entity_def rag_market_def get_def
      hitl_policy_review_def hitl_entity_review_def hitl_market_review_def
      route_after_policy_def route_after_entity_def route_after_market_def
      should_rerun_policy_def should_rerun_entity_def should_rerun_market_def
      should_synthesize_def
  have a: "map_sum id pending (snd (run [?w, ?w, ?w] ?c0)) = Inr [Synthesize, RAG_Entity, RAG_Market]"
    by (simp add: defs)
  have b: "map_sum id (should_synthesize \<circ> channels) (snd (run [?w, ?w, ?w] ?c0)) = Inr False"
    by (simp add: defs)
  have c: "(Synthesize,
    LlmCall (synthesis_prompt (PyStr ''Policy Analysis:\<newline>pol'')
               (PyStr ''Entity Analysis:\<newline>ent'') (PyStr ''Market Analysis:\<newline>mkt'')))
     \<in> set (fst (run [?w, ?w, ?w, ?w] ?c0))"
    by (simp add: defs synthesize_recommendation_def)
  from a b c show ?thesis unfolding r3 r4 by simp
qed


end
